theory Spec2Isabelle
  imports Complex_Main
begin

section \<open>Numeric primitives\<close>

text \<open>
  The module computes on Python floats through NumPy. Floats are modelled as real numbers
  with exact arithmetic: rounding error, infinities and NaN are outside the model. Lists of
  floats and one-dimensional float arrays are both \<open>real list\<close>.
\<close>

definition np_mean :: "real list \<Rightarrow> real" where
  \<comment> \<open>\<open>np.mean\<close>: the sum divided by the number of elements.\<close>
  "np_mean xs = sum_list xs / real (length xs)"

definition np_std :: "real list \<Rightarrow> real" where
  \<comment> \<open>\<open>np.std\<close> with the default \<open>ddof = 0\<close>: \<open>sqrt(mean(abs(x - x.mean()) ** 2))\<close>.\<close>
  "np_std xs = sqrt (np_mean (map (\<lambda>x. \<bar>x - np_mean xs\<bar> ^ 2) xs))"

fun np_max :: "real list \<Rightarrow> real" where
  \<comment> \<open>\<open>np.max\<close> raises on an empty array; its only call is guarded by
      \<open>len(novelty_abs)\<close>, so the first equation is never reached.\<close>
  "np_max [] = 0"
| "np_max (x # xs) = fold max xs x"

definition mask_select :: "'a list \<Rightarrow> bool list \<Rightarrow> 'a list" where
  \<comment> \<open>Boolean-mask indexing \<open>arr[mask]\<close> followed by \<open>tolist()\<close>.\<close>
  "mask_select xs keep = map fst (filter snd (zip xs keep))"

definition round_half_even :: "real \<Rightarrow> int" where
  "round_half_even y =
     (let f = \<lfloor>y\<rfloor>; d = y - of_int f
      in if d < 1 / 2 then f else if 1 / 2 < d then f + 1 else if even f then f else f + 1)"

definition py_round2 :: "real \<Rightarrow> real" where
  \<comment> \<open>\<open>round(x, 2)\<close>: nearest multiple of 0.01, ties to even.\<close>
  "py_round2 x = of_int (round_half_even (x * 100)) / 100"

section \<open>The outlier filter\<close>

definition remove_outliers :: "real list \<Rightarrow> real \<Rightarrow> real list" where
  "remove_outliers data_list threshold =
     (if length data_list < 2 then data_list
      else
        let mean = np_mean data_list; std = np_std data_list in
        if std = 0 then data_list
        else
          let z_scores = map (\<lambda>v. \<bar>(v - mean) / (std + 1 / 10 ^ 9)\<bar>) data_list
          in mask_select data_list (map (\<lambda>z. z \<le> threshold) z_scores))"




definition variance :: "real list \<Rightarrow> real" where
  \<comment> \<open>The square of \<open>np_std\<close>, used in the proofs.\<close>
  "variance xs = np_mean (map (\<lambda>x. (x - np_mean xs)\<^sup>2) xs)"

section \<open>Python values and exceptions\<close>

datatype pyval =
    PyNone
  | PyBool bool
  | PyInt int
  | PyFloat real
  | PyStr string
  | PyList "pyval list"
  | PyDict "(string \<times> pyval) list"

text \<open>
  A dictionary is an association list with string keys; the first binding of a key is its
  value. The exceptions the function body can raise, each with its message:
\<close>

datatype exn = ValueError string | TypeError string | OtherException string

text \<open>What the caller sees: a \<open>RuntimeError\<close> with its message and its \<open>__cause__\<close>.\<close>

datatype error = RuntimeError string exn

definition bind_exn :: "exn + 'a \<Rightarrow> ('a \<Rightarrow> exn + 'b) \<Rightarrow> exn + 'b" where
  "bind_exn m f = (case m of Inl e \<Rightarrow> Inl e | Inr x \<Rightarrow> f x)"

fun join :: "string \<Rightarrow> string list \<Rightarrow> string" where
  "join sep [] = []"
| "join sep [x] = x"
| "join sep (x # y # ys) = x @ sep @ join sep (y # ys)"

definition required_keys :: "string list" where
  "required_keys =
     [''coherence_ratings'', ''structural_feedback'', ''novelty_indicators'',
      ''application_successes'', ''likability_scores'']"

definition getitem :: "(string \<times> pyval) list \<Rightarrow> string \<Rightarrow> exn + pyval" where
  \<comment> \<open>\<open>ratings_data[key]\<close>; a missing key raises \<open>KeyError\<close>, whose text is the quoted
      key. It is caught by the second \<open>except\<close> clause.\<close>
  "getitem kvs key =
     (case map_of kvs key of
        None \<Rightarrow> Inl (OtherException (CHR 0x27 # key @ [CHR 0x27]))
      | Some v \<Rightarrow> Inr v)"

fun is_dict :: "pyval \<Rightarrow> bool" where
  \<comment> \<open>\<open>isinstance(v, dict)\<close>\<close>
  "is_dict (PyDict kvs) = True"
| "is_dict v = False"

definition missing_keys :: "(string \<times> pyval) list \<Rightarrow> string list" where
  \<comment> \<open>\<open>[key for key in required_keys if key not in ratings_data]\<close>\<close>
  "missing_keys kvs = filter (\<lambda>key. map_of kvs key = None) required_keys"

fun is_bool :: "pyval \<Rightarrow> bool" where
  "is_bool (PyBool b) = True"
| "is_bool v = False"

fun py_iter :: "pyval \<Rightarrow> exn + pyval list" where
  \<comment> \<open>The elements a \<open>for\<close> over the value yields.\<close>
  "py_iter (PyList vs) = Inr vs"
| "py_iter (PyStr s) = Inr (map (\<lambda>c. PyStr [c]) s)"
| "py_iter (PyDict kvs) = Inr (map (\<lambda>kv. PyStr (fst kv)) kvs)"
| "py_iter v = Inl (TypeError ''object is not iterable'')"

fun float_of :: "pyval \<Rightarrow> exn + real" where
  "float_of (PyFloat r) = Inr r"
| "float_of (PyInt i) = Inr (of_int i)"
| "float_of (PyBool b) = Inr (if b then 1 else 0)"
| "float_of (PyStr s) = Inl (ValueError ''could not convert string to float'')"
| "float_of v = Inl (TypeError ''float() argument must be a string or a real number'')"

fun float_all :: "pyval list \<Rightarrow> exn + real list" where
  "float_all [] = Inr []"
| "float_all (v # vs) =
     bind_exn (float_of v) (\<lambda>r. bind_exn (float_all vs) (\<lambda>rs. Inr (r # rs)))"

fun np_array_float :: "pyval \<Rightarrow> exn + real list" where
  \<comment> \<open>\<open>np.array(v, dtype=float)\<close> on a list of numbers (floats, integers, booleans).
      NumPy is not part of the repository: every other argument is modelled as raising,
      although NumPy accepts some of them (numeric strings, \<open>None\<close> as NaN, nested lists,
      scalars). What is proved about ill-typed bundles is proved for every conversion
      function, see \<open>compute_senses_with\<close>.\<close>
  "np_array_float (PyList vs) = float_all vs"
| "np_array_float v = Inl (TypeError ''float() argument must be a string or a real number'')"

section \<open>The five scores\<close>

definition hear_score :: "real list \<Rightarrow> real \<Rightarrow> real" where
  "hear_score coherence_arr z_threshold =
     (let coherence_filtered =
            mask_select coherence_arr (map (\<lambda>v. 0 \<le> v \<and> v \<le> 1) coherence_arr);
          coherence_clean = remove_outliers coherence_filtered z_threshold
      in if length coherence_clean \<noteq> 0 then np_mean coherence_clean else 0)"

definition see_score :: "real list \<Rightarrow> real \<Rightarrow> real" where
  "see_score structural_arr z_threshold =
     (let structural_filtered =
            mask_select structural_arr (map (\<lambda>v. 0 \<le> v \<and> v \<le> 1) structural_arr);
          structural_clean = remove_outliers structural_filtered z_threshold
      in if length structural_clean \<noteq> 0 then np_mean structural_clean else 0)"

definition smell_score :: "real list \<Rightarrow> real \<Rightarrow> real" where
  "smell_score novelty z_threshold =
     (let novelty_clean = remove_outliers novelty z_threshold;
          novelty_abs = map abs novelty_clean;
          max_abs = (if length novelty_abs \<noteq> 0 \<and> list_ex (\<lambda>v. 0 < v) novelty_abs
                     then np_max novelty_abs else 1)
      in if length novelty_abs \<noteq> 0 then np_mean novelty_abs / max_abs else 0)"

definition touch_score :: "pyval list \<Rightarrow> real" where
  \<comment> \<open>\<open>sum(successes) / len(successes)\<close> on booleans: \<open>True\<close> counts 1, \<open>False\<close> 0.\<close>
  "touch_score successes =
     (if successes \<noteq> []
      then real (length (filter (\<lambda>x. x = PyBool True) successes)) / real (length successes)
      else 0)"

definition taste_score :: "real list \<Rightarrow> real \<Rightarrow> real" where
  "taste_score likability_arr z_threshold =
     (let likability_filtered =
            mask_select likability_arr (map (\<lambda>v. 1 \<le> v \<and> v \<le> 5) likability_arr);
          likability_clean = remove_outliers likability_filtered z_threshold
      in if length likability_clean \<noteq> 0 then (np_mean likability_clean - 1) / 4 else 0)"

section \<open>compute_senses\<close>

definition hsstt_values ::
  "(pyval \<Rightarrow> exn + real list) \<Rightarrow> pyval \<Rightarrow> real \<Rightarrow> exn + real list" where
  \<comment> \<open>The body of the \<open>try\<close> block up to the list \<open>hsstt_values\<close>, with the array
      conversion \<open>np_array\<close> as a parameter.\<close>
  "hsstt_values np_array ratings_data z_threshold =
     (case ratings_data of
        PyDict kvs \<Rightarrow>
          (if missing_keys kvs \<noteq> []
           then Inl (ValueError (''Missing required keys: '' @ join '', '' (missing_keys kvs)))
           else
             bind_exn (bind_exn (getitem kvs ''coherence_ratings'') np_array) (\<lambda>coherence_arr.
             bind_exn (bind_exn (getitem kvs ''structural_feedback'') np_array) (\<lambda>structural_arr.
             bind_exn (bind_exn (getitem kvs ''novelty_indicators'') np_array) (\<lambda>novelty.
             bind_exn (bind_exn (getitem kvs ''application_successes'') py_iter) (\<lambda>successes.
             if \<not> list_all is_bool successes
             then Inl (ValueError ''application_successes must contain booleans'')
             else
               bind_exn (bind_exn (getitem kvs ''likability_scores'') np_array) (\<lambda>likability_arr.
               Inr [hear_score coherence_arr z_threshold,
                    see_score structural_arr z_threshold,
                    smell_score novelty z_threshold,
                    touch_score successes,
                    taste_score likability_arr z_threshold]))))))
      | _ \<Rightarrow> Inl (ValueError ''ratings_data must be a dictionary''))"

fun reraise :: "exn \<Rightarrow> error" where
  \<comment> \<open>The two \<open>except\<close> clauses.\<close>
  "reraise (ValueError m) = RuntimeError (''Error processing ratings_data: '' @ m) (ValueError m)"
| "reraise (TypeError m) = RuntimeError (''Error processing ratings_data: '' @ m) (TypeError m)"
| "reraise (OtherException m) = RuntimeError (''Unexpected error: '' @ m) (OtherException m)"

definition senses_metadata :: "real list \<Rightarrow> (string \<times> real) list" where
  \<comment> \<open>The dictionary that is serialised; the JSON text itself is not modelled.\<close>
  "senses_metadata vals =
     zip [''hear'', ''see'', ''smell'', ''touch'', ''taste''] (map py_round2 vals)"

definition compute_senses_with ::
  "(pyval \<Rightarrow> exn + real list) \<Rightarrow> pyval \<Rightarrow> real \<Rightarrow> error + (string \<times> real) list \<times> real" where
  "compute_senses_with np_array ratings_data z_threshold =
     (case hsstt_values np_array ratings_data z_threshold of
        Inl e \<Rightarrow> Inl (reraise e)
      | Inr vals \<Rightarrow> Inr (senses_metadata vals, np_mean vals))"

definition compute_senses :: "pyval \<Rightarrow> real \<Rightarrow> error + (string \<times> real) list \<times> real" where
  "compute_senses ratings_data z_threshold =
     compute_senses_with np_array_float ratings_data z_threshold"

definition ratings :: "real list \<Rightarrow> real list \<Rightarrow> real list \<Rightarrow> bool list \<Rightarrow> real list \<Rightarrow> pyval" where
  \<comment> \<open>A well-typed bundle, written as the dictionary literals of the tests are.\<close>
  "ratings coherence structural novelty successes likability =
     PyDict
       [(''coherence_ratings'', PyList (map PyFloat coherence)),
        (''structural_feedback'', PyList (map PyFloat structural)),
        (''novelty_indicators'', PyList (map PyFloat novelty)),
        (''application_successes'', PyList (map PyBool successes)),
        (''likability_scores'', PyList (map PyFloat likability))]"

definition numeric_field :: "(string \<times> pyval) list \<Rightarrow> string \<Rightarrow> real list \<Rightarrow> bool" where
  \<comment> \<open>The dictionary has the key, bound to a list of numbers with the values \<open>xs\<close>.\<close>
  "numeric_field kvs key xs =
     (case map_of kvs key of None \<Rightarrow> False | Some v \<Rightarrow> np_array_float v = Inr xs)"

definition bool_field :: "(string \<times> pyval) list \<Rightarrow> string \<Rightarrow> bool list \<Rightarrow> bool" where
  "bool_field kvs key bs = (map_of kvs key = Some (PyList (map PyBool bs)))"


section \<open>Properties of the outlier filter\<close>

lemma mask_select_map: "mask_select xs (map P xs) = filter P xs"
  unfolding mask_select_def by (induction xs) auto

lemma np_std_variance: "np_std xs = sqrt (variance xs)"
  by (simp add: np_std_def variance_def)

lemma sum_list_sq_nonneg: "0 \<le> sum_list (map (\<lambda>x. (x - m)\<^sup>2) (xs::real list))"
  by (rule sum_list_nonneg) auto

lemma variance_nonneg: "0 \<le> variance xs"
  unfolding variance_def np_mean_def using sum_list_sq_nonneg by simp

lemma np_std_nonneg: "0 \<le> np_std xs"
  by (simp add: np_std_variance variance_nonneg)

lemma remove_outliers_filter:
  assumes "2 \<le> length xs" "np_std xs \<noteq> 0"
  shows "remove_outliers xs t = filter (\<lambda>v. \<bar>v - np_mean xs\<bar> / (np_std xs + 1 / 10 ^ 9) \<le> t) xs"
proof -
  have pos: "0 < np_std xs + 1 / 10 ^ 9" using np_std_nonneg [of xs] by simp
  then have ab: "\<bar>np_std xs + 1 / 10 ^ 9\<bar> = np_std xs + 1 / 10 ^ 9" by simp
  have "remove_outliers xs t =
      mask_select xs (map (\<lambda>v. \<bar>(v - np_mean xs) / (np_std xs + 1 / 10 ^ 9)\<bar> \<le> t) xs)"
    using assms by (simp add: remove_outliers_def Let_def comp_def)
  also have "\<dots> = filter (\<lambda>v. \<bar>(v - np_mean xs) / (np_std xs + 1 / 10 ^ 9)\<bar> \<le> t) xs"
    by (rule mask_select_map)
  also have "\<dots> = filter (\<lambda>v. \<bar>v - np_mean xs\<bar> / (np_std xs + 1 / 10 ^ 9) \<le> t) xs"
    by (simp only: abs_divide ab)
  finally show ?thesis .
qed

lemma sum_list_dev_zero:
  assumes "xs \<noteq> []"
  shows "sum_list (map (\<lambda>x. x - np_mean xs) xs) = 0"
proof -
  have "sum_list (map (\<lambda>x. x - m) xs) = sum_list xs - real (length xs) * m" for m
    by (induction xs) (auto simp: algebra_simps)
  then show ?thesis using assms by (simp add: np_mean_def)
qed

lemma cauchy_list: "(sum_list (xs::real list))\<^sup>2 \<le> real (length xs) * sum_list (map (\<lambda>x. x\<^sup>2) xs)"
proof (induction xs)
  case Nil
  then show ?case by simp
next
  case (Cons a xs)
  define S where "S = sum_list xs"
  define Q where "Q = sum_list (map (\<lambda>x. x\<^sup>2) xs)"
  define m where "m = real (length xs)"
  have IH: "S\<^sup>2 \<le> m * Q" using Cons.IH by (simp add: S_def Q_def m_def)
  have Q: "0 \<le> Q" unfolding Q_def by (rule sum_list_nonneg) auto
  have mid: "2 * a * S \<le> m * a\<^sup>2 + Q"
  proof (cases "xs = []")
    case True
    then show ?thesis by (simp add: S_def Q_def m_def)
  next
    case False
    then have m: "0 < m" by (simp add: m_def)
    have "0 \<le> (m * a - S)\<^sup>2" by simp
    also have "(m * a - S)\<^sup>2 = m * (m * a\<^sup>2) - m * (2 * a * S) + S\<^sup>2"
      by (simp add: power2_diff power2_eq_square algebra_simps)
    finally have "m * (2 * a * S) \<le> m * (m * a\<^sup>2) + S\<^sup>2" by simp
    also have "\<dots> \<le> m * (m * a\<^sup>2) + m * Q" using IH by simp
    also have "\<dots> = m * (m * a\<^sup>2 + Q)" by (simp add: distrib_left)
    finally show ?thesis using m by (simp only: mult_le_cancel_left_pos)
  qed
  have "(a + S)\<^sup>2 = a\<^sup>2 + 2 * a * S + S\<^sup>2" by (simp add: power2_sum)
  also have "\<dots> \<le> a\<^sup>2 + (m * a\<^sup>2 + Q) + m * Q" using mid IH by simp
  also have "\<dots> = (m + 1) * (a\<^sup>2 + Q)" by (simp add: distrib_left distrib_right)
  finally have "(a + S)\<^sup>2 \<le> (m + 1) * (a\<^sup>2 + Q)" .
  then show ?case by (simp add: S_def Q_def m_def add.commute)
qed


lemma np_mean_variance_sum:
  "xs \<noteq> [] \<Longrightarrow> real (length xs) * variance xs = sum_list (map (\<lambda>x. (x - np_mean xs)\<^sup>2) xs)"
  by (simp add: variance_def np_mean_def)

lemma samuelson:
  assumes "x \<in> set xs"
  shows "(x - np_mean xs)\<^sup>2 \<le> (real (length xs) - 1) * variance xs"
proof -
  from assms obtain ys zs where xs: "xs = ys @ x # zs" by (auto simp: in_set_conv_decomp)
  define mu where "mu = np_mean xs"
  define d where "d = x - mu"
  define ds where "ds = map (\<lambda>y. y - mu) (ys @ zs)"
  define k where "k = real (length (ys @ zs))"
  define Q where "Q = sum_list (map (\<lambda>y. y\<^sup>2) ds)"
  have ne: "xs \<noteq> []" using xs by simp
  have n: "real (length xs) = k + 1" by (simp add: xs k_def)
  have "sum_list (map (\<lambda>y. y - mu) xs) = 0" unfolding mu_def by (rule sum_list_dev_zero [OF ne])
  then have S: "sum_list ds = - d" by (simp add: xs ds_def d_def)
  have "(sum_list ds)\<^sup>2 \<le> real (length ds) * Q" unfolding Q_def by (rule cauchy_list)
  moreover have "real (length ds) = k" by (simp add: k_def ds_def)
  ultimately have c: "d\<^sup>2 \<le> k * Q" by (simp only: S power2_minus)
  have "(k + 1) * variance xs = sum_list (map (\<lambda>y. (y - mu)\<^sup>2) xs)"
    using np_mean_variance_sum [OF ne] by (simp add: n mu_def)
  also have "\<dots> = d\<^sup>2 + Q" by (simp add: xs Q_def ds_def d_def comp_def)
  finally have v: "(k + 1) * variance xs = d\<^sup>2 + Q" .
  have k0: "0 \<le> k" by (simp add: k_def)
  have "(k + 1) * d\<^sup>2 = k * d\<^sup>2 + d\<^sup>2" by (simp add: distrib_right)
  also have "\<dots> \<le> k * d\<^sup>2 + k * Q" using c by simp
  also have "\<dots> = k * ((k + 1) * variance xs)" by (simp add: v distrib_left)
  also have "\<dots> = (k + 1) * (k * variance xs)" by simp
  finally have "d\<^sup>2 \<le> k * variance xs" using k0 by (simp only: mult_le_cancel_left_pos [of "k + 1"])
  then show ?thesis by (simp add: n d_def mu_def)
qed

lemma below_average:
  fixes f :: "'a \<Rightarrow> real"
  assumes "xs \<noteq> []"
  shows "\<exists>x\<in>set xs. f x \<le> sum_list (map f xs) / real (length xs)"
proof (rule ccontr)
  define c where "c = sum_list (map f xs) / real (length xs)"
  assume "\<not> (\<exists>x\<in>set xs. f x \<le> sum_list (map f xs) / real (length xs))"
  then have all: "\<forall>x\<in>set xs. c < f x" by (auto simp: c_def not_le)
  have "ys \<noteq> [] \<Longrightarrow> \<forall>x\<in>set ys. c < f x \<Longrightarrow> real (length ys) * c < sum_list (map f ys)" for ys
  proof (induction ys)
    case Nil
    then show ?case by simp
  next
    case (Cons y ys)
    show ?case
    proof (cases "ys = []")
      case True
      then show ?thesis using Cons.prems by simp
    next
      case False
      then have "real (length ys) * c < sum_list (map f ys)" using Cons by simp
      moreover have "c < f y" using Cons.prems by simp
      ultimately show ?thesis by (simp add: distrib_right)
    qed
  qed
  from this [OF assms all] have "real (length xs) * c < sum_list (map f xs)" .
  moreover have "real (length xs) * c = sum_list (map f xs)" using assms by (simp add: c_def)
  ultimately show False by simp
qed

lemma dev_le_std:
  assumes "(x - np_mean xs)\<^sup>2 \<le> c\<^sup>2 * variance xs" "0 \<le> c"
  shows "\<bar>x - np_mean xs\<bar> \<le> c * np_std xs"
proof -
  have "\<bar>x - np_mean xs\<bar> = sqrt ((x - np_mean xs)\<^sup>2)" by simp
  also have "\<dots> \<le> sqrt (c\<^sup>2 * variance xs)" using assms(1) by (simp only: real_sqrt_le_iff)
  also have "\<dots> = c * np_std xs" using assms(2) by (simp add: real_sqrt_mult np_std_variance)
  finally show ?thesis .
qed

lemma zscore_le:
  assumes "(x - np_mean xs)\<^sup>2 \<le> c\<^sup>2 * variance xs" "0 \<le> c" "c \<le> t"
  shows "\<bar>x - np_mean xs\<bar> / (np_std xs + 1 / 10 ^ 9) \<le> t"
proof -
  have s: "0 \<le> np_std xs" by (rule np_std_nonneg)
  then have pos: "0 < np_std xs + 1 / 10 ^ 9" by simp
  have "\<bar>x - np_mean xs\<bar> \<le> c * np_std xs" using assms(1,2) by (rule dev_le_std)
  also have "\<dots> \<le> t * np_std xs" using assms(3) s by (rule mult_right_mono)
  also have "\<dots> \<le> t * (np_std xs + 1 / 10 ^ 9)" using assms(2,3) by (simp add: distrib_left)
  finally show ?thesis using pos by (simp add: pos_divide_le_eq)
qed

lemma remove_outliers_keeps_all:
  assumes "real (length xs) - 1 \<le> t\<^sup>2" "0 \<le> t"
  shows "remove_outliers xs t = xs"
proof (cases "2 \<le> length xs \<and> np_std xs \<noteq> 0")
  case False
  then show ?thesis by (auto simp: remove_outliers_def Let_def)
next
  case True
  have "\<bar>x - np_mean xs\<bar> / (np_std xs + 1 / 10 ^ 9) \<le> t" if "x \<in> set xs" for x
  proof (rule zscore_le [where c = t])
    have "(x - np_mean xs)\<^sup>2 \<le> (real (length xs) - 1) * variance xs" using that by (rule samuelson)
    also have "\<dots> \<le> t\<^sup>2 * variance xs" using assms(1) variance_nonneg by (rule mult_right_mono)
    finally show "(x - np_mean xs)\<^sup>2 \<le> t\<^sup>2 * variance xs" .
  qed (use assms in auto)
  then show ?thesis using True by (simp add: remove_outliers_filter)
qed

lemma remove_outliers_nonempty:
  assumes "xs \<noteq> []" "1 \<le> t"
  shows "remove_outliers xs t \<noteq> []"
proof (cases "2 \<le> length xs \<and> np_std xs \<noteq> 0")
  case False
  then show ?thesis using assms(1) by (auto simp: remove_outliers_def Let_def)
next
  case True
  from below_average [OF assms(1), of "\<lambda>x. (x - np_mean xs)\<^sup>2"]
  obtain x where x: "x \<in> set xs" "(x - np_mean xs)\<^sup>2 \<le> variance xs"
    by (auto simp: variance_def np_mean_def)
  have "\<bar>x - np_mean xs\<bar> / (np_std xs + 1 / 10 ^ 9) \<le> t"
    by (rule zscore_le [where c = 1]) (use x assms in auto)
  with x(1) have "x \<in> set (remove_outliers xs t)" using True by (simp add: remove_outliers_filter)
  then show ?thesis by auto
qed


section \<open>The outlier filter: claims\<close>
















section \<open>Properties of the scores\<close>

lemma float_all_PyFloat: "float_all (map PyFloat xs) = Inr xs"
  by (induction xs) (simp_all add: bind_exn_def)

lemma list_all_is_bool: "list_all is_bool (map PyBool bs)"
  by (induction bs) simp_all

lemma hsstt_values_valid:
  assumes "numeric_field kvs ''coherence_ratings'' co"
    and "numeric_field kvs ''structural_feedback'' st"
    and "numeric_field kvs ''novelty_indicators'' no"
    and "bool_field kvs ''application_successes'' bs"
    and "numeric_field kvs ''likability_scores'' li"
  shows "hsstt_values np_array_float (PyDict kvs) t =
         Inr [hear_score co t, see_score st t, smell_score no t,
              touch_score (map PyBool bs), taste_score li t]"
  using assms
  by (auto simp: hsstt_values_def missing_keys_def required_keys_def numeric_field_def bool_field_def
      getitem_def bind_exn_def list_all_is_bool split: option.splits)

lemma hsstt_values_ratings:
  "hsstt_values np_array_float (ratings co st no su li) t =
   Inr [hear_score co t, see_score st t, smell_score no t,
        touch_score (map PyBool su), taste_score li t]"
  unfolding ratings_def
  by (rule hsstt_values_valid)
     (simp_all add: numeric_field_def bool_field_def float_all_PyFloat)

lemma compute_senses_ratings:
  "compute_senses (ratings co st no su li) t =
   Inr (senses_metadata [hear_score co t, see_score st t, smell_score no t,
        touch_score (map PyBool su), taste_score li t],
        np_mean [hear_score co t, see_score st t, smell_score no t,
        touch_score (map PyBool su), taste_score li t])"
  by (simp add: compute_senses_def compute_senses_with_def hsstt_values_ratings)















section \<open>The scores: claims\<close>



text \<open>
  Claim C5. For the bundle whose five sequences are all empty, \<open>compute_senses\<close> succeeds,
  all five scores are 0 and the composite is 0, whatever the threshold.
\<close>

theorem empty_bundle_zero:
  "compute_senses (ratings [] [] [] [] []) t =
     Inr ([(''hear'', 0), (''see'', 0), (''smell'', 0), (''touch'', 0), (''taste'', 0)], 0) \<and>
   hsstt_values np_array_float (ratings [] [] [] [] []) t = Inr [0, 0, 0, 0, 0]"
  by (simp add: compute_senses_ratings hsstt_values_ratings hear_score_def see_score_def
      smell_score_def touch_score_def taste_score_def remove_outliers_def mask_select_def
      senses_metadata_def py_round2_def round_half_even_def np_mean_def)

lemma keeps3: "length xs \<le> 10 \<Longrightarrow> remove_outliers xs 3 = xs"
  by (rule remove_outliers_keeps_all) auto

lemma sample_values:
  "hsstt_values np_array_float
     (ratings [0.8, 0.9, 0.7] [0.85, 0.75, 0.9] [1.2, 0.5, -0.3] [True, True, False] [4.5, 5.0, 3.8]) 3
   = Inr [4 / 5, 5 / 6, 5 / 9, 2 / 3, 103 / 120]"
  by (simp add: hsstt_values_ratings hear_score_def see_score_def smell_score_def
      touch_score_def taste_score_def mask_select_def keeps3 np_mean_def)

lemma round_sample_hear: "py_round2 (4 / 5) = 0.8" by (simp add: py_round2_def round_half_even_def)
lemma round_sample_see: "py_round2 (5 / 6) = 0.83" by (simp add: py_round2_def round_half_even_def)
lemma round_sample_smell: "py_round2 (5 / 9) = 0.56" by (simp add: py_round2_def round_half_even_def)
lemma round_sample_touch: "py_round2 (2 / 3) = 0.67" by (simp add: py_round2_def round_half_even_def)
lemma round_sample_taste: "py_round2 (103 / 120) = 0.86" by (simp add: py_round2_def round_half_even_def)

text \<open>
  Claim C3. On the sample bundle of the tests with the default threshold 3.0,
  \<open>compute_senses\<close> returns the summary hear 0.8, see 0.83, smell 0.56, touch 0.67,
  taste 0.86 and the composite \<open>1337 / 1800\<close>, which is within 0.0005 of 0.743.
\<close>

theorem sample_bundle_result:
  "compute_senses
     (ratings [0.8, 0.9, 0.7] [0.85, 0.75, 0.9] [1.2, 0.5, -0.3] [True, True, False] [4.5, 5.0, 3.8]) 3
   = Inr ([(''hear'', 0.8), (''see'', 0.83), (''smell'', 0.56), (''touch'', 0.67), (''taste'', 0.86)],
          1337 / 1800) \<and>
   \<bar>1337 / 1800 - 0.743\<bar> < (0.0005 :: real)"
  unfolding compute_senses_def compute_senses_with_def sample_values
  by (simp add: senses_metadata_def round_sample_hear round_sample_see round_sample_smell
      round_sample_touch round_sample_taste np_mean_def)

lemma mask_select_drop:
  assumes "\<not> P v"
  shows "mask_select (xs @ v # ys) (map P (xs @ v # ys)) = mask_select (xs @ ys) (map P (xs @ ys))"
  using assms by (simp only: mask_select_map filter_append filter.simps if_False)

lemma hear_score_drop:
  "v < 0 \<or> 1 < v \<Longrightarrow> hear_score (xs @ v # ys) t = hear_score (xs @ ys) t"
  unfolding hear_score_def by (subst mask_select_drop) auto

lemma see_score_drop:
  "v < 0 \<or> 1 < v \<Longrightarrow> see_score (xs @ v # ys) t = see_score (xs @ ys) t"
  unfolding see_score_def by (subst mask_select_drop) auto

lemma taste_score_drop:
  "v < 1 \<or> 5 < v \<Longrightarrow> taste_score (xs @ v # ys) t = taste_score (xs @ ys) t"
  unfolding taste_score_def by (subst mask_select_drop) auto

text \<open>
  Claim C7. For hear and see (domain \<open>[0, 1]\<close>) and taste (domain \<open>[1, 5]\<close>): adding a
  value outside the domain anywhere in the signal's sequence leaves the signal's score, and
  the whole result of \<open>compute_senses\<close>, exactly as without it, for every bundle and
  threshold.
\<close>

theorem domain_filter_exact:
  "(v < 0 \<or> 1 < v \<longrightarrow>
      hear_score (xs @ v # ys) t = hear_score (xs @ ys) t \<and>
      compute_senses (ratings (xs @ v # ys) st no su li) t =
      compute_senses (ratings (xs @ ys) st no su li) t) \<and>
   (v < 0 \<or> 1 < v \<longrightarrow>
      see_score (xs @ v # ys) t = see_score (xs @ ys) t \<and>
      compute_senses (ratings co (xs @ v # ys) no su li) t =
      compute_senses (ratings co (xs @ ys) no su li) t) \<and>
   (v < 1 \<or> 5 < v \<longrightarrow>
      taste_score (xs @ v # ys) t = taste_score (xs @ ys) t \<and>
      compute_senses (ratings co st no su (xs @ v # ys)) t =
      compute_senses (ratings co st no su (xs @ ys)) t)"
  by (simp add: compute_senses_ratings hear_score_drop see_score_drop taste_score_drop)

theorem domain_filter_exact_witness:
  "((2::real) < 0 \<or> (1::real) < 2) \<and>
   hear_score ([0.8, 0.9] @ 2 # []) (3 / 2) = 17 / 20 \<and>
   hear_score ([0.8, 0.9] @ []) (3 / 2) = 17 / 20 \<and>
   see_score ([0.8] @ 2 # [0.9]) (3 / 2) = see_score ([0.8] @ [0.9]) (3 / 2) \<and>
   ((1000000::real) < 1 \<or> (5::real) < 1000000) \<and>
   taste_score ([4.5, 5] @ 1000000 # []) 3 = taste_score ([4.5, 5] @ []) 3"
proof -
  have k: "remove_outliers [4 / 5, 9 / 10] (3 / 2) = [4 / 5, 9 / 10]"
    by (rule remove_outliers_keeps_all) (simp_all add: power2_eq_square)
  have h: "hear_score [4 / 5, 9 / 10] (3 / 2) = 17 / 20"
    by (simp add: hear_score_def mask_select_def k np_mean_def)
  show ?thesis
    using domain_filter_exact [of 2 "[0.8, 0.9]" "[]" "3 / 2" "[]" "[]" "[]" "[]" "[]"]
      domain_filter_exact [of 2 "[0.8]" "[0.9]" "3 / 2" "[]" "[]" "[]" "[]" "[]"]
      domain_filter_exact [of 1000000 "[4.5, 5]" "[]" 3 "[]" "[]" "[]" "[]" "[]"]
    by (simp add: h)
qed







section \<open>Failures: claims\<close>

lemma not_dict_fails:
  "\<not> is_dict v \<Longrightarrow> hsstt_values np_array v t = Inl (ValueError ''ratings_data must be a dictionary'')"
  by (cases v) (simp_all add: hsstt_values_def)

lemma missing_fails:
  "missing_keys kvs \<noteq> [] \<Longrightarrow>
   hsstt_values np_array (PyDict kvs) t =
     Inl (ValueError (''Missing required keys: '' @ join '', '' (missing_keys kvs)))"
  by (simp add: hsstt_values_def)

lemma non_bool_fails:
  assumes "map_of kvs ''application_successes'' = Some (PyList vs)" and "\<not> list_all is_bool vs"
  shows "\<exists>cause. hsstt_values np_array (PyDict kvs) t = Inl cause"
  using assms
  by (auto simp: hsstt_values_def getitem_def bind_exn_def split: sum.splits option.splits)

lemma non_bool_exact:
  assumes "missing_keys kvs = []"
    and "bind_exn (getitem kvs ''coherence_ratings'') np_array = Inr co"
    and "bind_exn (getitem kvs ''structural_feedback'') np_array = Inr st"
    and "bind_exn (getitem kvs ''novelty_indicators'') np_array = Inr no"
    and "map_of kvs ''application_successes'' = Some (PyList vs)" and "\<not> list_all is_bool vs"
  shows "hsstt_values np_array (PyDict kvs) t =
         Inl (ValueError ''application_successes must contain booleans'')"
  using assms by (simp add: hsstt_values_def getitem_def bind_exn_def)

lemma reraise_cause: "\<exists>msg. reraise e = RuntimeError msg e"
  by (cases e) simp_all

text \<open>
  Claim C8. \<open>compute_senses\<close> fails with a single \<open>RuntimeError\<close> that wraps the original
  exception, and returns no result, when the bundle is not a dictionary, when a required key
  is missing (the message lists every missing key), and when \<open>application_successes\<close>
  contains an element that is not a boolean. The first two failures do not depend on the
  array conversion, so they happen before any numeric computation; the third holds for
  every array conversion, and is the boolean check's own error when the three conversions
  before it succeed.
\<close>

theorem validation_failures:
  "(\<not> is_dict ratings_data \<longrightarrow>
      compute_senses_with np_array ratings_data t =
        Inl (RuntimeError ''Error processing ratings_data: ratings_data must be a dictionary''
               (ValueError ''ratings_data must be a dictionary''))) \<and>
   (missing_keys kvs \<noteq> [] \<longrightarrow>
      compute_senses_with np_array (PyDict kvs) t =
        Inl (RuntimeError
               (''Error processing ratings_data: Missing required keys: '' @
                  join '', '' (missing_keys kvs))
               (ValueError (''Missing required keys: '' @ join '', '' (missing_keys kvs))))) \<and>
   set (missing_keys kvs) = {key \<in> set required_keys. map_of kvs key = None} \<and>
   (map_of kvs ''application_successes'' = Some (PyList vs) \<and> \<not> list_all is_bool vs \<longrightarrow>
      (\<exists>cause msg. hsstt_values np_array (PyDict kvs) t = Inl cause \<and>
         compute_senses_with np_array (PyDict kvs) t = Inl (RuntimeError msg cause))) \<and>
   (missing_keys kvs = [] \<and>
    bind_exn (getitem kvs ''coherence_ratings'') np_array = Inr co \<and>
    bind_exn (getitem kvs ''structural_feedback'') np_array = Inr st \<and>
    bind_exn (getitem kvs ''novelty_indicators'') np_array = Inr no \<and>
    map_of kvs ''application_successes'' = Some (PyList vs) \<and> \<not> list_all is_bool vs \<longrightarrow>
      compute_senses_with np_array (PyDict kvs) t =
        Inl (RuntimeError
               ''Error processing ratings_data: application_successes must contain booleans''
               (ValueError ''application_successes must contain booleans'')))"
proof (intro conjI impI)
  assume "\<not> is_dict ratings_data"
  then show "compute_senses_with np_array ratings_data t =
        Inl (RuntimeError ''Error processing ratings_data: ratings_data must be a dictionary''
               (ValueError ''ratings_data must be a dictionary''))"
    by (simp add: compute_senses_with_def not_dict_fails)
next
  assume "missing_keys kvs \<noteq> []"
  then show "compute_senses_with np_array (PyDict kvs) t =
        Inl (RuntimeError
               (''Error processing ratings_data: Missing required keys: '' @
                  join '', '' (missing_keys kvs))
               (ValueError (''Missing required keys: '' @ join '', '' (missing_keys kvs))))"
    by (simp add: compute_senses_with_def missing_fails)
next
  show "set (missing_keys kvs) = {key \<in> set required_keys. map_of kvs key = None}"
    by (simp add: missing_keys_def)
next
  assume a: "map_of kvs ''application_successes'' = Some (PyList vs) \<and> \<not> list_all is_bool vs"
  then obtain cause where c: "hsstt_values np_array (PyDict kvs) t = Inl cause"
    using non_bool_fails [of kvs vs np_array t] by blast
  obtain msg where "reraise cause = RuntimeError msg cause" using reraise_cause by blast
  with c show "\<exists>cause msg. hsstt_values np_array (PyDict kvs) t = Inl cause \<and>
         compute_senses_with np_array (PyDict kvs) t = Inl (RuntimeError msg cause)"
    by (simp add: compute_senses_with_def)
next
  assume "missing_keys kvs = [] \<and>
    bind_exn (getitem kvs ''coherence_ratings'') np_array = Inr co \<and>
    bind_exn (getitem kvs ''structural_feedback'') np_array = Inr st \<and>
    bind_exn (getitem kvs ''novelty_indicators'') np_array = Inr no \<and>
    map_of kvs ''application_successes'' = Some (PyList vs) \<and> \<not> list_all is_bool vs"
  then have "hsstt_values np_array (PyDict kvs) t =
         Inl (ValueError ''application_successes must contain booleans'')"
    using non_bool_exact [of kvs np_array co st no vs t] by blast
  then show "compute_senses_with np_array (PyDict kvs) t =
        Inl (RuntimeError
               ''Error processing ratings_data: application_successes must contain booleans''
               (ValueError ''application_successes must contain booleans''))"
    by (simp add: compute_senses_with_def)
qed

theorem validation_failures_witness:
  "\<not> is_dict (PyList []) \<and>
   compute_senses (PyList []) 3 =
     Inl (RuntimeError ''Error processing ratings_data: ratings_data must be a dictionary''
            (ValueError ''ratings_data must be a dictionary'')) \<and>
   missing_keys [(''coherence_ratings'', PyList []), (''novelty_indicators'', PyNone)] \<noteq> [] \<and>
   compute_senses (PyDict [(''coherence_ratings'', PyList []), (''novelty_indicators'', PyNone)]) 3 =
     Inl (RuntimeError
       ''Error processing ratings_data: Missing required keys: structural_feedback, application_successes, likability_scores''
       (ValueError ''Missing required keys: structural_feedback, application_successes, likability_scores'')) \<and>
   \<not> list_all is_bool [PyBool True, PyInt 1] \<and>
   compute_senses
     (PyDict [(''coherence_ratings'', PyList []), (''structural_feedback'', PyList []),
              (''novelty_indicators'', PyList []),
              (''application_successes'', PyList [PyBool True, PyInt 1]),
              (''likability_scores'', PyList [])]) 3 =
     Inl (RuntimeError
            ''Error processing ratings_data: application_successes must contain booleans''
            (ValueError ''application_successes must contain booleans''))"
proof -
  let ?two = "[(''coherence_ratings'', PyList []), (''novelty_indicators'', PyNone)]"
  let ?bad = "[(''coherence_ratings'', PyList []), (''structural_feedback'', PyList []),
              (''novelty_indicators'', PyList []),
              (''application_successes'', PyList [PyBool True, PyInt 1]),
              (''likability_scores'', PyList [])]"
  have m: "missing_keys ?two = [''structural_feedback'', ''application_successes'', ''likability_scores'']"
    by (simp add: missing_keys_def required_keys_def)
  have b: "missing_keys ?bad = []" by (simp add: missing_keys_def required_keys_def)
  show ?thesis
    using validation_failures [of "PyList []" np_array_float 3 ?two "[]" "[]" "[]" "[]"]
      validation_failures [of "PyList []" np_array_float 3 ?bad "[PyBool True, PyInt 1]" "[]" "[]" "[]"]
    by (simp add: compute_senses_def m b getitem_def bind_exn_def)
qed

end
